theory Spec2Isabelle
  imports Complex_Main
begin

section \<open>Values\<close>

text \<open>
  A Python \<open>float\<close> is either a finite number or \<open>nan\<close>.  Finite values are
  idealised as reals (no rounding, no infinities); \<open>nan\<close> is kept, because pandas
  uses it for a missing cell and for the minimum of an empty column.
\<close>

datatype pyfloat = Fin real | NaN

fun fadd :: "pyfloat \<Rightarrow> pyfloat \<Rightarrow> pyfloat" where
  "fadd (Fin a) (Fin b) = Fin (a + b)"
| "fadd _ _ = NaN"

fun fsub :: "pyfloat \<Rightarrow> pyfloat \<Rightarrow> pyfloat" where
  "fsub (Fin a) (Fin b) = Fin (a - b)"
| "fsub _ _ = NaN"

fun fmul :: "pyfloat \<Rightarrow> pyfloat \<Rightarrow> pyfloat" where
  "fmul (Fin a) (Fin b) = Fin (a * b)"
| "fmul _ _ = NaN"

text \<open>The exceptions the code can raise, as values.\<close>

datatype error =
  KeyError | ValueError | TypeError | AttributeError | IndexError
  | ZeroDivisionError | LoadError

text \<open>\<open>int / float\<close>: true division raises on a zero divisor.\<close>

fun truediv :: "int \<Rightarrow> pyfloat \<Rightarrow> error + pyfloat" where
  "truediv n NaN = Inr NaN"
| "truediv n (Fin s) = (if s = 0 then Inl ZeroDivisionError else Inr (Fin (real_of_int n / s)))"

text \<open>A pandas \<open>Timestamp\<close>, by its calendar fields; comparison is chronological.\<close>

record timestamp =
  ts_year :: int
  ts_month :: int
  ts_day :: int
  ts_hour :: int
  ts_minute :: int
  ts_second :: int

definition ts_key :: "timestamp \<Rightarrow> int list" where
  "ts_key t = [ts_year t, ts_month t, ts_day t, ts_hour t, ts_minute t, ts_second t]"

fun lex_less :: "int list \<Rightarrow> int list \<Rightarrow> bool" where
  "lex_less (a # as) (b # bs) = (a < b \<or> (a = b \<and> lex_less as bs))"
| "lex_less _ _ = False"

definition ts_less :: "timestamp \<Rightarrow> timestamp \<Rightarrow> bool" where
  "ts_less s t = lex_less (ts_key s) (ts_key t)"

text \<open>
  A cell of a data frame: a string (every column of the archive holds strings, its
  second line being a row of units), a float (\<open>nan\<close> for an empty field), a timestamp,
  or \<open>NaT\<close>.
\<close>

datatype cell = Str string | Flt pyfloat | Time timestamp | NaT

text \<open>A row maps column names to cells; a frame is its column list and its rows in order.\<close>

type_synonym row = "string \<rightharpoonup> cell"

record frame =
  cols :: "string list"
  recs :: "row list"

fun row_get :: "row \<Rightarrow> string \<Rightarrow> error + cell" where
  "row_get r c = (case r c of None \<Rightarrow> Inl KeyError | Some v \<Rightarrow> Inr v)"

text \<open>Sequencing of fallible steps: the first exception ends the computation.\<close>

fun bind_err :: "error + 'a \<Rightarrow> ('a \<Rightarrow> error + 'b) \<Rightarrow> error + 'b" where
  "bind_err (Inl e) f = Inl e"
| "bind_err (Inr x) f = f x"

text \<open>Running a fallible function over a list stops at the first error.\<close>

fun map_err :: "('a \<Rightarrow> error + 'b) \<Rightarrow> 'a list \<Rightarrow> error + 'b list" where
  "map_err f [] = Inr []"
| "map_err f (x # xs) =
     (case f x of Inl e \<Rightarrow> Inl e
      | Inr y \<Rightarrow> (case map_err f xs of Inl e \<Rightarrow> Inl e | Inr ys \<Rightarrow> Inr (y # ys)))"

section \<open>config.py\<close>

definition COLOR_R34 :: string where "COLOR_R34 = ''crimson''"
definition COLOR_R50 :: string where "COLOR_R50 = ''blue''"
definition COLOR_R64 :: string where "COLOR_R64 = ''green''"
definition ARC_LINEWIDTH :: pyfloat where "ARC_LINEWIDTH = Fin 2"
definition MARKER_SIZE :: pyfloat where "MARKER_SIZE = Fin 7"
definition MARKER_EDGE_WIDTH :: pyfloat where "MARKER_EDGE_WIDTH = Fin (5 / 2)"
definition MARKER_FACE_COLOR :: string where "MARKER_FACE_COLOR = ''blue''"
definition MARKER_EDGE_COLOR :: string where "MARKER_EDGE_COLOR = ''white''"
definition MAP_OFFSET :: pyfloat where "MAP_OFFSET = Fin 10"
definition GRID_LON_STEP :: int where "GRID_LON_STEP = 10"
definition GRID_LAT_STEP :: int where "GRID_LAT_STEP = 10"
definition RADIUS_SCALE :: pyfloat where "RADIUS_SCALE = Fin 70"
definition FIGURE_SIZE :: "int \<times> int" where "FIGURE_SIZE = (20, 25)"
definition ANNOTATION_OFFSET_POS :: "int \<times> int" where "ANNOTATION_OFFSET_POS = (180, 5)"
definition ANNOTATION_OFFSET_NEG :: "int \<times> int" where "ANNOTATION_OFFSET_NEG = (-280, -5)"

section \<open>The drawing surface\<close>

text \<open>
  The matplotlib axes are modelled by the sequence of drawing calls made on them, in
  order.  \<open>Arc c w h t1 t2 lw ec\<close> is \<open>patches.Arc(c, w, h, theta1=t1, theta2=t2, lw, ec)\<close>;
  \<open>HLine y x1 x2 lw c\<close> is one segment of \<open>ax.hlines\<close>, from \<open>(x1, y)\<close> to \<open>(x2, y)\<close>;
  \<open>VLine x y1 y2 lw c\<close> is one segment of \<open>ax.vlines\<close>, from \<open>(x, y1)\<close> to \<open>(x, y2)\<close>.
\<close>

datatype artist =
  Arc "pyfloat \<times> pyfloat" pyfloat pyfloat int int pyfloat string
  | HLine pyfloat pyfloat pyfloat pyfloat string
  | VLine pyfloat pyfloat pyfloat pyfloat string
  | Feature string
  | Extent pyfloat pyfloat pyfloat pyfloat
  | Gridlines int int
  | Marker pyfloat pyfloat
  | Annotation string "pyfloat \<times> pyfloat" "int \<times> int"
  | SaveFig string
  | Show

type_synonym axes = "artist list"

text \<open>
  A drawing step returns the surface as it left it and the exception it raised, if any:
  what was drawn before an exception stays drawn.
\<close>

type_synonym outcome = "axes \<times> error option"

fun with_val :: "error + 'a \<Rightarrow> axes \<Rightarrow> ('a \<Rightarrow> outcome) \<Rightarrow> outcome" where
  "with_val (Inl e) ax f = (ax, Some e)"
| "with_val (Inr x) ax f = f x"

fun then_draw :: "outcome \<Rightarrow> (axes \<Rightarrow> outcome) \<Rightarrow> outcome" where
  "then_draw (ax, Some e) f = (ax, Some e)"
| "then_draw (ax, None) f = f ax"

text \<open>
  \<open>ax.hlines(y, xmin, xmax)\<close> takes three sequences and draws, for each index \<open>i\<close>,
  the segment from \<open>xmin[i]\<close> to \<open>xmax[i]\<close> at height \<open>y[i]\<close>; \<open>ax.vlines(x, ymin, ymax)\<close>
  likewise.
\<close>

definition hlines :: "pyfloat list \<Rightarrow> pyfloat list \<Rightarrow> pyfloat list \<Rightarrow> pyfloat \<Rightarrow> string \<Rightarrow> artist list" where
  "hlines ys xmins xmaxs lw c = map (\<lambda>(y, x1, x2). HLine y x1 x2 lw c) (zip ys (zip xmins xmaxs))"

definition vlines :: "pyfloat list \<Rightarrow> pyfloat list \<Rightarrow> pyfloat list \<Rightarrow> pyfloat \<Rightarrow> string \<Rightarrow> artist list" where
  "vlines xs ymins ymaxs lw c = map (\<lambda>(x, y1, y2). VLine x y1 y2 lw c) (zip xs (zip ymins ymaxs))"

section \<open>plot.py: wind radii\<close>

text \<open>
  The arcs are added first, one per radius present (\<open>zip\<close> stops at the shorter list);
  \<open>radii[3]\<close> in the arguments of \<open>hlines\<close> raises \<open>IndexError\<close> on a shorter list,
  before any spoke is drawn.
\<close>

definition draw_wind_radii_arcs ::
  "pyfloat \<Rightarrow> pyfloat \<Rightarrow> pyfloat list \<Rightarrow> pyfloat \<Rightarrow> string \<Rightarrow> axes \<Rightarrow> outcome" where
  "draw_wind_radii_arcs xcenter ycenter radii lw ec ax =
     (let ax1 = ax @ map (\<lambda>(rad, theta).
                   Arc (xcenter, ycenter) (fmul (Fin 2) rad) (fmul (Fin 2) rad) theta (theta + 90) lw ec)
                 (zip radii [0, 90, 180, 270])
      in if length radii < 4 then (ax1, Some IndexError)
         else
           let ax2 = ax1 @ hlines [ycenter, ycenter]
                           [fadd xcenter (radii ! 0), fsub xcenter (radii ! 1)]
                           [fadd xcenter (radii ! 3), fsub xcenter (radii ! 2)] lw ec;
               ax3 = ax2 @ vlines [xcenter, xcenter]
                           [fadd ycenter (radii ! 0), fsub ycenter (radii ! 2)]
                           [fadd ycenter (radii ! 1), fsub ycenter (radii ! 3)] lw ec
           in (ax3, None))"

text \<open>
  Python's \<open>int(str)\<close> in base 10: surrounding whitespace is stripped, one sign is
  allowed, then decimal digits, where single underscores may separate digits.  Anything
  else raises \<open>ValueError\<close> (\<open>None\<close> here).
\<close>

definition is_space :: "char \<Rightarrow> bool" where
  "is_space c = (let n = (of_char c :: nat) in (9 \<le> n \<and> n \<le> 13) \<or> (28 \<le> n \<and> n \<le> 32))"

definition is_digit :: "char \<Rightarrow> bool" where
  "is_digit c = (let n = (of_char c :: nat) in 48 \<le> n \<and> n \<le> 57)"

definition digit_val :: "char \<Rightarrow> nat" where
  "digit_val c = of_char c - 48"

definition strip :: "string \<Rightarrow> string" where
  "strip s = rev (dropWhile is_space (rev (dropWhile is_space s)))"

fun digit_run :: "nat \<Rightarrow> string \<Rightarrow> nat option" where
  "digit_run acc [] = Some acc"
| "digit_run acc [c] = (if is_digit c then Some (10 * acc + digit_val c) else None)"
| "digit_run acc (c # d # r) =
     (if is_digit c then digit_run (10 * acc + digit_val c) (d # r)
      else if c = CHR ''_'' \<and> is_digit d then digit_run acc (d # r)
      else None)"

definition parse_digits :: "string \<Rightarrow> nat option" where
  "parse_digits s = (case s of [] \<Rightarrow> None
     | c # r \<Rightarrow> if is_digit c then digit_run (digit_val c) r else None)"

definition int_of_str :: "string \<Rightarrow> int option" where
  "int_of_str s =
     (case strip s of [] \<Rightarrow> None
      | c # r \<Rightarrow>
          if c = CHR ''-'' then map_option (\<lambda>n. - int n) (parse_digits r)
          else if c = CHR ''+'' then map_option int (parse_digits r)
          else map_option int (parse_digits (c # r)))"

text \<open>\<open>int(v)\<close> on a cell: a float is truncated towards zero, \<open>nan\<close> is refused.\<close>

fun py_int :: "cell \<Rightarrow> error + int" where
  "py_int (Str s) = (case int_of_str s of None \<Rightarrow> Inl ValueError | Some n \<Rightarrow> Inr n)"
| "py_int (Flt (Fin r)) = Inr (if 0 \<le> r then \<lfloor>r\<rfloor> else \<lceil>r\<rceil>)"
| "py_int (Flt NaN) = Inl ValueError"
| "py_int (Time t) = Inl TypeError"
| "py_int NaT = Inl TypeError"

text \<open>\<open>pd.isna(v)\<close> on a scalar.\<close>

fun isna :: "cell \<Rightarrow> bool" where
  "isna (Flt NaN) = True"
| "isna NaT = True"
| "isna _ = False"

definition parse_radii :: "row \<Rightarrow> string \<Rightarrow> pyfloat \<Rightarrow> error + pyfloat list option" where
  "parse_radii row prefix scale =
     (let quads = map (\<lambda>q. prefix @ ''_'' @ q) [''SE'', ''NE'', ''SW'', ''NW''] in
      case map_err (row_get row) quads of
        Inl e \<Rightarrow> Inl e
      | Inr values \<Rightarrow>
          if list_ex (\<lambda>v. v = Str '' '' \<or> isna v) values then Inr None
          else (case map_err (\<lambda>v. case py_int v of Inl e \<Rightarrow> Inl e | Inr n \<Rightarrow> truediv n scale) values of
                  Inl e \<Rightarrow> Inl e
                | Inr radii \<Rightarrow> Inr (Some radii)))"

text \<open>
  The body of the loop over the thresholds in \<open>plot_track\<close>: parse the four radii of
  one threshold and draw its ring when they are all there.
\<close>

definition draw_threshold ::
  "row \<Rightarrow> string \<Rightarrow> string \<Rightarrow> pyfloat \<Rightarrow> pyfloat \<Rightarrow> pyfloat \<Rightarrow> axes \<Rightarrow> outcome" where
  "draw_threshold row prefix color scale at_x at_y ax =
     (case parse_radii row prefix scale of
        Inl e \<Rightarrow> (ax, Some e)
      | Inr None \<Rightarrow> (ax, None)
      | Inr (Some radii) \<Rightarrow> draw_wind_radii_arcs at_x at_y radii ARC_LINEWIDTH color ax)"

section \<open>ibtracs.py\<close>

definition EXTRACT_VARS :: "string list" where
  "EXTRACT_VARS =
    [''NAME'', ''ISO_TIME'', ''WMO_WIND'', ''WMO_PRES'', ''LAT'', ''LON'',
     ''USA_R34_NE'', ''USA_R34_NW'', ''USA_R34_SE'', ''USA_R34_SW'',
     ''USA_R50_NE'', ''USA_R50_NW'', ''USA_R50_SE'', ''USA_R50_SW'',
     ''USA_R64_NE'', ''USA_R64_NW'', ''USA_R64_SE'', ''USA_R64_SW'',
     ''REUNION_R34_NE'', ''REUNION_R34_NW'', ''REUNION_R34_SE'', ''REUNION_R34_SW'',
     ''REUNION_R50_NE'', ''REUNION_R50_NW'', ''REUNION_R50_SE'', ''REUNION_R50_SW'',
     ''REUNION_R64_NE'', ''REUNION_R64_NW'', ''REUNION_R64_SE'', ''REUNION_R64_SW'',
     ''BOM_R34_NE'', ''BOM_R34_SE'', ''BOM_R34_NW'', ''BOM_R34_SW'',
     ''BOM_R50_NE'', ''BOM_R50_SE'', ''BOM_R50_NW'', ''BOM_R50_SW'',
     ''BOM_R64_NE'', ''BOM_R64_SE'', ''BOM_R64_NW'', ''BOM_R64_SW'']"

text \<open>\<open>x % 360\<close> on floats: the result has the sign of the divisor.\<close>

fun fmod360 :: "pyfloat \<Rightarrow> pyfloat" where
  "fmod360 (Fin x) = Fin (x - 360 * real_of_int \<lfloor>x / 360\<rfloor>)"
| "fmod360 NaN = NaN"

definition lon_to_360 :: "pyfloat \<Rightarrow> pyfloat" where
  "lon_to_360 dlon = fmod360 (fadd (Fin 360) (fmod360 dlon))"

text \<open>
  What the code takes from pandas, the file system and cartopy is a parameter of the
  model: reading and parsing the archive, \<open>pd.to_datetime\<close> on a scalar (\<open>None\<close> is
  \<open>NaT\<close>), \<open>float(str)\<close>, \<open>str\<close> of a float and of a timestamp, and the projection of a
  point.
\<close>

record lib =
  read_csv :: "string \<Rightarrow> error + frame"
  to_datetime :: "cell \<Rightarrow> error + timestamp option"
  str_to_float :: "string \<Rightarrow> pyfloat option"
  float_str :: "pyfloat \<Rightarrow> string"
  time_str :: "timestamp \<Rightarrow> string"
  transform_point :: "pyfloat \<Rightarrow> pyfloat \<Rightarrow> pyfloat \<times> pyfloat"

text \<open>\<open>str(n)\<close> of an integer.\<close>

definition digit_char :: "nat \<Rightarrow> char" where
  "digit_char n = char_of (48 + n)"

fun str_nat :: "nat \<Rightarrow> string" where
  "str_nat n = (if n < 10 then [digit_char n] else str_nat (n div 10) @ [digit_char (n mod 10)])"

declare str_nat.simps [simp del]

definition str_int :: "int \<Rightarrow> string" where
  "str_int i = (if i < 0 then CHR ''-'' # str_nat (nat (- i)) else str_nat (nat i))"

text \<open>The value of a column in a row; pandas shows a missing value as \<open>nan\<close>.\<close>

definition cell_at :: "row \<Rightarrow> string \<Rightarrow> cell" where
  "cell_at r c = (case r c of None \<Rightarrow> Flt NaN | Some v \<Rightarrow> v)"

text \<open>\<open>float(v)\<close> on a cell, also what \<open>astype(float)\<close> does to each element.\<close>

fun cell_float :: "lib \<Rightarrow> cell \<Rightarrow> error + pyfloat" where
  "cell_float L (Str s) = (case str_to_float L s of None \<Rightarrow> Inl ValueError | Some f \<Rightarrow> Inr f)"
| "cell_float L (Flt f) = Inr f"
| "cell_float L (Time t) = Inl TypeError"
| "cell_float L NaT = Inl TypeError"

fun time_cell :: "timestamp option \<Rightarrow> cell" where
  "time_cell None = NaT"
| "time_cell (Some t) = Time t"

text \<open>Comparisons of a datetime cell with a timestamp; every comparison with \<open>NaT\<close> is false.\<close>

fun time_ge :: "cell \<Rightarrow> timestamp option \<Rightarrow> bool" where
  "time_ge (Time t) (Some s) = (\<not> ts_less t s)"
| "time_ge _ _ = False"

fun time_lt :: "cell \<Rightarrow> timestamp option \<Rightarrow> bool" where
  "time_lt (Time t) (Some s) = ts_less t s"
| "time_lt _ _ = False"

definition get_storm_track :: "lib \<Rightarrow> string \<Rightarrow> int \<Rightarrow> string \<Rightarrow> bool \<Rightarrow> error + frame" where
  "get_storm_track L name year ibtracs_csv filter_missing_wmo =
     bind_err (read_csv L ibtracs_csv) (\<lambda>data0.
     let data1 = data0\<lparr>recs := drop 1 (recs data0)\<rparr> in
     bind_err (to_datetime L (Str (str_int year))) (\<lambda>year_start.
     bind_err (to_datetime L (Str (str_int (year + 1)))) (\<lambda>year_end.
     if ''NAME'' \<notin> set (cols data1) then Inl KeyError else
     let data2 = data1\<lparr>recs := filter (\<lambda>r. cell_at r ''NAME'' = Str name) (recs data1)\<rparr> in
     if ''ISO_TIME'' \<notin> set (cols data2) then Inl KeyError else
     bind_err (map_err (\<lambda>r. to_datetime L (cell_at r ''ISO_TIME'')) (recs data2)) (\<lambda>stamps.
     let data3 = data2\<lparr>recs := map (\<lambda>(r, t). r(''ISO_TIME'' \<mapsto> time_cell t)) (zip (recs data2) stamps)\<rparr>;
         data4 = data3\<lparr>recs := filter (\<lambda>r. time_ge (cell_at r ''ISO_TIME'') year_start
                                         \<and> time_lt (cell_at r ''ISO_TIME'') year_end) (recs data3)\<rparr> in
     if \<not> set EXTRACT_VARS \<subseteq> set (cols data4) then Inl KeyError else
     let data5 = \<lparr>cols = EXTRACT_VARS, recs = map (\<lambda>r. r |` set EXTRACT_VARS) (recs data4)\<rparr>;
         data6 = (if filter_missing_wmo
                  then data5\<lparr>recs := filter (\<lambda>r. cell_at r ''WMO_PRES'' \<noteq> Str '' '')
                                        (filter (\<lambda>r. cell_at r ''WMO_WIND'' \<noteq> Str '' '') (recs data5))\<rparr>
                  else data5);
         data7 = \<lparr>cols = cols data6 @ [''LON_180''],
                  recs = map (\<lambda>r. r(''LON_180'' \<mapsto> cell_at r ''LON'')) (recs data6)\<rparr> in
     bind_err (map_err (\<lambda>r. cell_float L (cell_at r ''LON'')) (recs data7)) (\<lambda>lons.
     Inr (data7\<lparr>recs := map (\<lambda>(r, f). r(''LON'' \<mapsto> Flt (lon_to_360 f))) (zip (recs data7) lons)\<rparr>))))))"

section \<open>plot.py: the map and the track\<close>

text \<open>\<open>Series.min()\<close> and \<open>Series.max()\<close> skip \<open>nan\<close> and give \<open>nan\<close> when nothing is left.\<close>

fun fin_values :: "pyfloat list \<Rightarrow> real list" where
  "fin_values [] = []"
| "fin_values (Fin x # xs) = x # fin_values xs"
| "fin_values (NaN # xs) = fin_values xs"

definition series_min :: "pyfloat list \<Rightarrow> pyfloat" where
  "series_min xs = (case fin_values xs of [] \<Rightarrow> NaN | v # vs \<Rightarrow> Fin (fold min vs v))"

definition series_max :: "pyfloat list \<Rightarrow> pyfloat" where
  "series_max xs = (case fin_values xs of [] \<Rightarrow> NaN | v # vs \<Rightarrow> Fin (fold max vs v))"

text \<open>\<open>track[c].astype(float)\<close>.\<close>

definition column_float :: "lib \<Rightarrow> frame \<Rightarrow> string \<Rightarrow> error + pyfloat list" where
  "column_float L df c =
     (if c \<notin> set (cols df) then Inl KeyError
      else map_err (\<lambda>r. cell_float L (cell_at r c)) (recs df))"

text \<open>
  \<open>ax.set_extent\<close> ends by setting the limits of both axes, and matplotlib refuses a
  limit that is \<open>nan\<close> with a \<open>ValueError\<close>.  Finite bounds are taken to be accepted.
\<close>

definition set_extent :: "pyfloat \<Rightarrow> pyfloat \<Rightarrow> pyfloat \<Rightarrow> pyfloat \<Rightarrow> axes \<Rightarrow> outcome" where
  "set_extent x0 x1 y0 y1 ax =
     (if NaN \<in> set [x0, x1, y0, y1] then (ax, Some ValueError)
      else (ax @ [Extent x0 x1 y0 y1], None))"

definition setup_map :: "axes \<Rightarrow> pyfloat \<Rightarrow> pyfloat \<Rightarrow> pyfloat \<Rightarrow> pyfloat \<Rightarrow> pyfloat \<Rightarrow> outcome" where
  "setup_map ax min_lat max_lat min_lon max_lon offset =
     (let ax1 = ax @ [Feature ''BORDERS'', Feature ''COASTLINE''] in
      then_draw (set_extent (fsub min_lon offset) (fadd max_lon offset)
                            (fsub min_lat offset) (fadd max_lat offset) ax1) (\<lambda>ax2.
      (ax2 @ [Gridlines GRID_LON_STEP GRID_LAT_STEP], None)))"

text \<open>The loop over the three thresholds of one row.\<close>

fun draw_thresholds ::
  "row \<Rightarrow> (string \<times> string) list \<Rightarrow> pyfloat \<Rightarrow> pyfloat \<Rightarrow> pyfloat \<Rightarrow> axes \<Rightarrow> outcome" where
  "draw_thresholds row [] scale at_x at_y ax = (ax, None)"
| "draw_thresholds row ((prefix, color) # ps) scale at_x at_y ax =
     then_draw (draw_threshold row prefix color scale at_x at_y ax)
               (draw_thresholds row ps scale at_x at_y)"

text \<open>\<open>row["ISO_TIME"].strftime("%d/%H")\<close>: day and hour, two digits each.\<close>

definition zero_pad2 :: "int \<Rightarrow> string" where
  "zero_pad2 n = (if n < 10 then CHR ''0'' # str_int n else str_int n)"

fun strftime_dH :: "cell \<Rightarrow> error + string" where
  "strftime_dH (Time t) = Inr (zero_pad2 (ts_day t) @ ''/'' @ zero_pad2 (ts_hour t))"
| "strftime_dH NaT = Inl ValueError"
| "strftime_dH (Str s) = Inl AttributeError"
| "strftime_dH (Flt f) = Inl AttributeError"

text \<open>\<open>str(v)\<close>, as an f-string formats a cell.\<close>

fun cell_str :: "lib \<Rightarrow> cell \<Rightarrow> string" where
  "cell_str L (Str s) = s"
| "cell_str L (Flt f) = float_str L f"
| "cell_str L (Time t) = time_str L t"
| "cell_str L NaT = ''NaT''"

text \<open>The body of the loop over the rows in \<open>plot_track\<close>, for one row and the current \<open>sign\<close>.\<close>

definition plot_row ::
  "lib \<Rightarrow> string \<Rightarrow> string \<Rightarrow> string \<Rightarrow> pyfloat \<Rightarrow> int \<Rightarrow> row \<Rightarrow> axes \<Rightarrow> outcome" where
  "plot_row L color_r34 color_r50 color_r64 radius_scale sign row ax =
     with_val (bind_err (row_get row ''LON'') (cell_float L)) ax (\<lambda>lon.
     with_val (bind_err (row_get row ''LAT'') (cell_float L)) ax (\<lambda>lat.
     let (at_x, at_y) = transform_point L lon lat in
     then_draw (draw_thresholds row
                  [(''USA_R34'', color_r34), (''USA_R50'', color_r50), (''USA_R64'', color_r64)]
                  radius_scale at_x at_y ax) (\<lambda>ax1.
     let ax2 = ax1 @ [Marker lon lat] in
     with_val (bind_err (row_get row ''ISO_TIME'') strftime_dH) ax2 (\<lambda>dh.
     let time_str = dh @ ''Z'' in
     with_val (row_get row ''WMO_WIND'') ax2 (\<lambda>wind.
     with_val (row_get row ''WMO_PRES'') ax2 (\<lambda>pres.
     let info_str = time_str @ '', '' @ cell_str L wind @ '' KTS, '' @ cell_str L pres @ '' hPa'';
         off = (if sign > 0 then ANNOTATION_OFFSET_POS else ANNOTATION_OFFSET_NEG) in
     (ax2 @ [Annotation info_str (at_x, at_y) off], None)))))))"

fun plot_rows ::
  "lib \<Rightarrow> string \<Rightarrow> string \<Rightarrow> string \<Rightarrow> pyfloat \<Rightarrow> int \<Rightarrow> row list \<Rightarrow> axes \<Rightarrow> outcome" where
  "plot_rows L color_r34 color_r50 color_r64 radius_scale sign [] ax = (ax, None)"
| "plot_rows L color_r34 color_r50 color_r64 radius_scale sign (row # rows) ax =
     then_draw (plot_row L color_r34 color_r50 color_r64 radius_scale sign row ax)
               (plot_rows L color_r34 color_r50 color_r64 radius_scale (sign * - 1) rows)"

text \<open>
  \<open>plot_track\<close>: the result is the drawing surface of the figure and the exception that
  ended the call, if any.  \<open>storm_name\<close> and \<open>figsize\<close> do not reach the surface.
\<close>

definition plot_track ::
  "lib \<Rightarrow> frame \<Rightarrow> string \<Rightarrow> string option \<Rightarrow> int \<times> int \<Rightarrow> pyfloat \<Rightarrow> string \<Rightarrow> string \<Rightarrow> string \<Rightarrow> pyfloat
     \<Rightarrow> outcome" where
  "plot_track L track storm_name output_path figsize map_offset color_r34 color_r50 color_r64 radius_scale =
     with_val (column_float L track ''LAT'') [] (\<lambda>lats.
     with_val (column_float L track ''LON'') [] (\<lambda>lons.
     then_draw (setup_map [] (series_min lats) (series_max lats) (series_min lons) (series_max lons)
                  map_offset) (\<lambda>ax.
     then_draw (plot_rows L color_r34 color_r50 color_r64 radius_scale 1 (recs track) ax) (\<lambda>ax'.
     (case output_path of
        None \<Rightarrow> (ax' @ [Show], None)
      | Some p \<Rightarrow> if p = [] then (ax' @ [Show], None) else (ax' @ [SaveFig p], None))))))"

section \<open>cli.py\<close>

text \<open>The namespace that \<open>parse_args\<close> returns; \<open>--no-filter-wmo\<close> is a \<open>store_true\<close> flag.\<close>

record args =
  args_name :: string
  args_year :: int
  args_ibt_csv :: string
  args_output :: "string option"
  args_map_offset :: pyfloat
  args_color_r34 :: string
  args_color_r50 :: string
  args_color_r64 :: string
  args_radius_scale :: pyfloat
  args_no_filter_wmo :: bool

text \<open>\<open>str.upper()\<close> on ASCII text.\<close>

definition upper_char :: "char \<Rightarrow> char" where
  "upper_char c = (let n = (of_char c :: nat) in if 97 \<le> n \<and> n \<le> 122 then char_of (n - 32) else c)"

definition upper :: "string \<Rightarrow> string" where
  "upper s = map upper_char s"

text \<open>The arguments with which \<open>main\<close> calls \<open>get_storm_track\<close>: name, year, path, filter.\<close>

definition loader_call :: "args \<Rightarrow> string \<times> int \<times> string \<times> bool" where
  "loader_call a =
     (let storm_name = upper (args_name a);
          filter_wmo = (\<not> args_no_filter_wmo a \<and> args_year a \<noteq> 2021)
      in (storm_name, args_year a, args_ibt_csv a, filter_wmo))"

definition main :: "lib \<Rightarrow> args \<Rightarrow> outcome" where
  "main L a =
     (let (storm_name, year, ibt_csv, filter_wmo) = loader_call a;
          output_path = (case args_output a of
                           None \<Rightarrow> storm_name @ ''_'' @ str_int year @ ''_track.png''
                         | Some p \<Rightarrow> if p = [] then storm_name @ ''_'' @ str_int year @ ''_track.png'' else p)
      in with_val (get_storm_track L storm_name year ibt_csv filter_wmo) [] (\<lambda>track.
         plot_track L track storm_name (Some output_path) FIGURE_SIZE (args_map_offset a)
           (args_color_r34 a) (args_color_r50 a) (args_color_r64 a) (args_radius_scale a)))"

section \<open>A sample archive and library\<close>

text \<open>
  A small archive in the layout of the real one (a row of units, then observations), and
  simple stand-ins for the library functions, on which the definitions above can be run:
  timestamps are read in the archive's format \<open>YYYY-MM-DD HH:MM:SS\<close> (or a bare year),
  floats are read from integer text, and the projection is the identity.
\<close>

definition blank_row :: row where
  "blank_row = map_of (map (\<lambda>c. (c, Str '' '')) (''SID'' # EXTRACT_VARS))"

definition units_row :: row where
  "units_row = blank_row(''ISO_TIME'' \<mapsto> Str ''Year'', ''LAT'' \<mapsto> Str ''degrees_north'',
     ''LON'' \<mapsto> Str ''degrees_east'', ''WMO_WIND'' \<mapsto> Str ''kts'', ''WMO_PRES'' \<mapsto> Str ''mb'')"

definition obs_a :: row where
  "obs_a = blank_row(''NAME'' \<mapsto> Str ''TESTSTORM'', ''ISO_TIME'' \<mapsto> Str ''2020-09-01 00:00:00'',
     ''WMO_WIND'' \<mapsto> Str ''50'', ''WMO_PRES'' \<mapsto> Str ''980'',
     ''LAT'' \<mapsto> Str ''20'', ''LON'' \<mapsto> Str ''-40'',
     ''USA_R34_SE'' \<mapsto> Str ''50'', ''USA_R34_NE'' \<mapsto> Str ''60'',
     ''USA_R34_SW'' \<mapsto> Str ''40'', ''USA_R34_NW'' \<mapsto> Str ''55'')"

definition obs_b :: row where
  "obs_b = blank_row(''NAME'' \<mapsto> Str ''TESTSTORM'', ''ISO_TIME'' \<mapsto> Str ''2020-09-01 06:00:00'',
     ''LAT'' \<mapsto> Str ''21'', ''LON'' \<mapsto> Str ''-41'',
     ''USA_R34_NE'' \<mapsto> Str ''60'', ''USA_R34_SW'' \<mapsto> Str ''40'', ''USA_R34_NW'' \<mapsto> Str ''55'')"

definition obs_c :: row where
  "obs_c = blank_row(''NAME'' \<mapsto> Str ''TESTSTORM'', ''ISO_TIME'' \<mapsto> Str ''2020-09-01 12:00:00'',
     ''WMO_WIND'' \<mapsto> Str ''55'', ''WMO_PRES'' \<mapsto> Str ''975'',
     ''LAT'' \<mapsto> Str ''22'', ''LON'' \<mapsto> Str ''-42'')"

definition obs_d :: row where
  "obs_d = blank_row(''NAME'' \<mapsto> Str ''OTHER'', ''ISO_TIME'' \<mapsto> Str ''2019-07-04 18:00:00'',
     ''WMO_WIND'' \<mapsto> Str ''30'', ''WMO_PRES'' \<mapsto> Str ''1002'',
     ''LAT'' \<mapsto> Str ''15'', ''LON'' \<mapsto> Str ''100'')"

definition sample_archive :: frame where
  "sample_archive = \<lparr>cols = ''SID'' # EXTRACT_VARS, recs = [units_row, obs_a, obs_b, obs_c, obs_d]\<rparr>"

definition field_int :: "string \<Rightarrow> nat \<Rightarrow> nat \<Rightarrow> int option" where
  "field_int s i n = int_of_str (take n (drop i s))"

definition sample_parse_time :: "string \<Rightarrow> error + timestamp option" where
  "sample_parse_time s =
     (if length s = 4 then
        (case int_of_str s of None \<Rightarrow> Inl ValueError
         | Some y \<Rightarrow> Inr (Some \<lparr>ts_year = y, ts_month = 1, ts_day = 1,
                                 ts_hour = 0, ts_minute = 0, ts_second = 0\<rparr>))
      else if length s = 19 then
        (case (field_int s 0 4, field_int s 5 2, field_int s 8 2,
               field_int s 11 2, field_int s 14 2, field_int s 17 2) of
           (Some y, Some mo, Some d, Some h, Some mi, Some se) \<Rightarrow>
              Inr (Some \<lparr>ts_year = y, ts_month = mo, ts_day = d,
                          ts_hour = h, ts_minute = mi, ts_second = se\<rparr>)
         | _ \<Rightarrow> Inl ValueError)
      else Inl ValueError)"

fun sample_to_datetime :: "cell \<Rightarrow> error + timestamp option" where
  "sample_to_datetime (Str s) = sample_parse_time s"
| "sample_to_datetime (Time t) = Inr (Some t)"
| "sample_to_datetime (Flt f) = Inr None"
| "sample_to_datetime NaT = Inr None"

definition sample_lib :: lib where
  "sample_lib =
     \<lparr>read_csv = (\<lambda>p. if p = ''ibtracs.csv'' then Inr sample_archive else Inl LoadError),
      to_datetime = sample_to_datetime,
      str_to_float = (\<lambda>s. map_option (\<lambda>n. Fin (real_of_int n)) (int_of_str s)),
      float_str = (\<lambda>f. case f of NaN \<Rightarrow> ''nan'' | Fin r \<Rightarrow> str_int \<lfloor>r\<rfloor> @ ''.0''),
      time_str = (\<lambda>t. str_int (ts_year t)),
      transform_point = Pair\<rparr>"

section \<open>Vocabulary of the properties\<close>

fun is_arc :: "artist \<Rightarrow> bool" where
  "is_arc (Arc c w h t1 t2 lw ec) = True"
| "is_arc _ = False"

fun is_spoke :: "artist \<Rightarrow> bool" where
  "is_spoke (HLine y x1 x2 lw c) = True"
| "is_spoke (VLine x y1 y2 lw c) = True"
| "is_spoke _ = False"

text \<open>The \<open>xytext\<close> offsets of the annotations on a surface, in drawing order.\<close>

fun ann_offsets :: "axes \<Rightarrow> (int \<times> int) list" where
  "ann_offsets [] = []"
| "ann_offsets (Annotation s xy off # as) = off # ann_offsets as"
| "ann_offsets (a # as) = ann_offsets as"

text \<open>The four quadrant columns of a threshold, in the order the code reads them.\<close>

definition quad_cols :: "string \<Rightarrow> string list" where
  "quad_cols prefix = map (\<lambda>q. prefix @ ''_'' @ q) [''SE'', ''NE'', ''SW'', ''NW'']"

text \<open>A quadrant value is absent when it is the archive's blank (one space) or missing.\<close>

definition absent :: "cell \<Rightarrow> bool" where
  "absent v = (v = Str '' '' \<or> isna v)"



text \<open>Whether a parsed timestamp lies in \<open>[year_start, year_end)\<close>, as the loader's mask tests it.\<close>

definition in_year :: "timestamp option \<Rightarrow> timestamp option \<Rightarrow> timestamp option \<Rightarrow> bool" where
  "in_year t year_start year_end = (time_ge (time_cell t) year_start \<and> time_lt (time_cell t) year_end)"

text \<open>The track with no rows that the loader returns when nothing matches.\<close>

definition empty_track :: frame where
  "empty_track = \<lparr>cols = EXTRACT_VARS @ [''LON_180''], recs = []\<rparr>"

text \<open>A row passes the filter on the official fields when neither is the blank.\<close>

definition wmo_present :: "row \<Rightarrow> bool" where
  "wmo_present r = (cell_at r ''WMO_WIND'' \<noteq> Str '' '' \<and> cell_at r ''WMO_PRES'' \<noteq> Str '' '')"

text \<open>
  \<open>get_storm_track\<close> in two phases, to compare calls that differ in the filter only: the
  rows selected by name, year and columns, and the longitude step on one row.
\<close>

definition selected_rows :: "lib \<Rightarrow> string \<Rightarrow> int \<Rightarrow> string \<Rightarrow> error + row list" where
  "selected_rows L name year ibtracs_csv =
     bind_err (read_csv L ibtracs_csv) (\<lambda>data0.
     let data1 = data0\<lparr>recs := drop 1 (recs data0)\<rparr> in
     bind_err (to_datetime L (Str (str_int year))) (\<lambda>year_start.
     bind_err (to_datetime L (Str (str_int (year + 1)))) (\<lambda>year_end.
     if ''NAME'' \<notin> set (cols data1) then Inl KeyError else
     let data2 = data1\<lparr>recs := filter (\<lambda>r. cell_at r ''NAME'' = Str name) (recs data1)\<rparr> in
     if ''ISO_TIME'' \<notin> set (cols data2) then Inl KeyError else
     bind_err (map_err (\<lambda>r. to_datetime L (cell_at r ''ISO_TIME'')) (recs data2)) (\<lambda>stamps.
     let data3 = data2\<lparr>recs := map (\<lambda>(r, t). r(''ISO_TIME'' \<mapsto> time_cell t)) (zip (recs data2) stamps)\<rparr>;
         data4 = data3\<lparr>recs := filter (\<lambda>r. time_ge (cell_at r ''ISO_TIME'') year_start
                                         \<and> time_lt (cell_at r ''ISO_TIME'') year_end) (recs data3)\<rparr> in
     if \<not> set EXTRACT_VARS \<subseteq> set (cols data4) then Inl KeyError else
     Inr (map (\<lambda>r. r |` set EXTRACT_VARS) (recs data4))))))"

definition finish_row :: "lib \<Rightarrow> row \<Rightarrow> error + row" where
  "finish_row L r =
     bind_err (cell_float L (cell_at r ''LON'')) (\<lambda>f.
     Inr (r(''LON_180'' \<mapsto> cell_at r ''LON'', ''LON'' \<mapsto> Flt (lon_to_360 f))))"

text \<open>
  No observation matches a request: every row after the units row that carries the
  requested name has a timestamp that parses and lies outside the requested year.
\<close>

definition no_row_matches ::
  "lib \<Rightarrow> frame \<Rightarrow> string \<Rightarrow> timestamp option \<Rightarrow> timestamp option \<Rightarrow> bool" where
  "no_row_matches L data name year_start year_end =
     (\<forall>r \<in> set (drop 1 (recs data)). cell_at r ''NAME'' = Str name \<longrightarrow>
        (case to_datetime L (cell_at r ''ISO_TIME'') of
           Inl e \<Rightarrow> False
         | Inr t \<Rightarrow> \<not> in_year t year_start year_end))"


text \<open>A command line for the sample archive.\<close>

definition sample_args :: args where
  "sample_args =
     \<lparr>args_name = ''teststorm'', args_year = 2020, args_ibt_csv = ''ibtracs.csv'',
      args_output = None, args_map_offset = MAP_OFFSET, args_color_r34 = COLOR_R34,
      args_color_r50 = COLOR_R50, args_color_r64 = COLOR_R64, args_radius_scale = RADIUS_SCALE,
      args_no_filter_wmo = False\<rparr>"

section \<open>Wind-radii geometry\<close>

lemma draw_wind_radii_arcs_four:
  "draw_wind_radii_arcs xc yc [se, ne, sw, nw] lw ec ax =
     (ax @ [Arc (xc, yc) (fmul (Fin 2) se) (fmul (Fin 2) se) 0 90 lw ec,
            Arc (xc, yc) (fmul (Fin 2) ne) (fmul (Fin 2) ne) 90 180 lw ec,
            Arc (xc, yc) (fmul (Fin 2) sw) (fmul (Fin 2) sw) 180 270 lw ec,
            Arc (xc, yc) (fmul (Fin 2) nw) (fmul (Fin 2) nw) 270 360 lw ec,
            HLine yc (fadd xc se) (fadd xc nw) lw ec,
            HLine yc (fsub xc ne) (fsub xc sw) lw ec,
            VLine xc (fadd yc se) (fadd yc ne) lw ec,
            VLine xc (fsub yc sw) (fsub yc nw) lw ec], None)"
  by (simp add: draw_wind_radii_arcs_def hlines_def vlines_def)

text \<open>
  C1 (as amended).  For every centre \<open>(x, y)\<close> and radii \<open>[SE, NE, SW, NW]\<close>, the spokes
  drawn by \<open>draw_wind_radii_arcs\<close> are exactly these four, each joining the ends of two
  neighbouring arcs: a horizontal segment from \<open>x + SE\<close> to \<open>x + NW\<close> and one from
  \<open>x - NE\<close> to \<open>x - SW\<close>, both at height \<open>y\<close>; a vertical segment from \<open>y + SE\<close> to
  \<open>y + NE\<close> and one from \<open>y - SW\<close> to \<open>y - NW\<close>, both at \<open>x\<close>.
\<close>

theorem draw_wind_radii_arcs_spokes:
  "filter is_spoke (drop (length ax)
      (fst (draw_wind_radii_arcs (Fin x) (Fin y) [Fin se, Fin ne, Fin sw, Fin nw] lw ec ax))) =
     [HLine (Fin y) (Fin (x + se)) (Fin (x + nw)) lw ec,
      HLine (Fin y) (Fin (x - ne)) (Fin (x - sw)) lw ec,
      VLine (Fin x) (Fin (y + se)) (Fin (y + ne)) lw ec,
      VLine (Fin x) (Fin (y - sw)) (Fin (y - nw)) lw ec]"
  by (simp add: draw_wind_radii_arcs_four)

text \<open>
  C1 as stated fails.  At centre \<open>(0, 0)\<close> with radii \<open>[1, 2, 3, 4]\<close> the claim wants a
  horizontal segment between \<open>x + SE = 1\<close> and \<open>x - NE = -2\<close> and a vertical one between
  \<open>y + SE = 1\<close> and \<open>y - SW = -3\<close>; the call draws neither, in either direction, but the
  segments from 1 to 4 and from -2 to -3 on each axis.
\<close>

theorem draw_wind_radii_arcs_spokes_counterexample:
  "filter is_spoke (fst (draw_wind_radii_arcs (Fin 0) (Fin 0) [Fin 1, Fin 2, Fin 3, Fin 4]
       ARC_LINEWIDTH COLOR_R34 [])) =
     [HLine (Fin 0) (Fin 1) (Fin 4) ARC_LINEWIDTH COLOR_R34,
      HLine (Fin 0) (Fin (- 2)) (Fin (- 3)) ARC_LINEWIDTH COLOR_R34,
      VLine (Fin 0) (Fin 1) (Fin 2) ARC_LINEWIDTH COLOR_R34,
      VLine (Fin 0) (Fin (- 3)) (Fin (- 4)) ARC_LINEWIDTH COLOR_R34]
   \<and> HLine (Fin 0) (Fin 1) (Fin (- 2)) ARC_LINEWIDTH COLOR_R34
        \<notin> set (fst (draw_wind_radii_arcs (Fin 0) (Fin 0) [Fin 1, Fin 2, Fin 3, Fin 4]
                   ARC_LINEWIDTH COLOR_R34 []))
   \<and> HLine (Fin 0) (Fin (- 2)) (Fin 1) ARC_LINEWIDTH COLOR_R34
        \<notin> set (fst (draw_wind_radii_arcs (Fin 0) (Fin 0) [Fin 1, Fin 2, Fin 3, Fin 4]
                   ARC_LINEWIDTH COLOR_R34 []))
   \<and> VLine (Fin 0) (Fin 1) (Fin (- 3)) ARC_LINEWIDTH COLOR_R34
        \<notin> set (fst (draw_wind_radii_arcs (Fin 0) (Fin 0) [Fin 1, Fin 2, Fin 3, Fin 4]
                   ARC_LINEWIDTH COLOR_R34 []))
   \<and> VLine (Fin 0) (Fin (- 3)) (Fin 1) ARC_LINEWIDTH COLOR_R34
        \<notin> set (fst (draw_wind_radii_arcs (Fin 0) (Fin 0) [Fin 1, Fin 2, Fin 3, Fin 4]
                   ARC_LINEWIDTH COLOR_R34 []))"
  by (simp add: draw_wind_radii_arcs_four)

text \<open>
  C2.  For every centre and radii \<open>[SE, NE, SW, NW]\<close>, \<open>draw_wind_radii_arcs\<close> draws exactly
  four arcs, all centred at the point: SE from 0 to 90 degrees, NE from 90 to 180, SW from
  180 to 270, NW from 270 to 360, each with width and height twice its own radius.
\<close>

theorem draw_wind_radii_arcs_arcs:
  "filter is_arc (drop (length ax)
      (fst (draw_wind_radii_arcs (Fin x) (Fin y) [Fin se, Fin ne, Fin sw, Fin nw] lw ec ax))) =
     [Arc (Fin x, Fin y) (Fin (2 * se)) (Fin (2 * se)) 0 90 lw ec,
      Arc (Fin x, Fin y) (Fin (2 * ne)) (Fin (2 * ne)) 90 180 lw ec,
      Arc (Fin x, Fin y) (Fin (2 * sw)) (Fin (2 * sw)) 180 270 lw ec,
      Arc (Fin x, Fin y) (Fin (2 * nw)) (Fin (2 * nw)) 270 360 lw ec]
   \<and> snd (draw_wind_radii_arcs (Fin x) (Fin y) [Fin se, Fin ne, Fin sw, Fin nw] lw ec ax) = None"
  by (simp add: draw_wind_radii_arcs_four)

section \<open>Longitude normalisation\<close>

lemma mod360_range:
  "0 \<le> x - 360 * real_of_int \<lfloor>x / 360\<rfloor> \<and> x - 360 * real_of_int \<lfloor>x / 360\<rfloor> < 360"
proof -
  have a: "real_of_int \<lfloor>x / 360\<rfloor> * 360 \<le> x" by (rule floor_divide_lower) simp
  have b: "x < (real_of_int \<lfloor>x / 360\<rfloor> + 1) * 360" by (rule floor_divide_upper) simp
  from a b show ?thesis by (simp add: algebra_simps)
qed

lemma mod360_small:
  assumes "0 \<le> m" and "m < 360"
  shows "(360 + m) - 360 * real_of_int \<lfloor>(360 + m) / 360\<rfloor> = (m::real)"
proof -
  have "\<lfloor>(360 + m) / 360\<rfloor> = 1"
    using assms by (simp add: floor_eq_iff)
  then show ?thesis by simp
qed

lemma mod360_period:
  "(x + 360) - 360 * real_of_int \<lfloor>(x + 360) / 360\<rfloor> = x - 360 * real_of_int \<lfloor>x / 360\<rfloor>"
proof -
  have e: "(x + 360) / 360 = x / 360 + 1" by (simp add: field_simps)
  have "\<lfloor>(x + 360) / 360\<rfloor> = \<lfloor>x / 360 + 1\<rfloor>" by (simp only: e)
  also have "\<dots> = \<lfloor>x / 360\<rfloor> + 1" by linarith
  finally have "\<lfloor>(x + 360) / 360\<rfloor> = \<lfloor>x / 360\<rfloor> + 1" .
  then show ?thesis by simp
qed

lemma lon_to_360_Fin: "lon_to_360 (Fin x) = Fin (x - 360 * real_of_int \<lfloor>x / 360\<rfloor>)"
  using mod360_range [of x] mod360_small [of "x - 360 * real_of_int \<lfloor>x / 360\<rfloor>"]
  by (simp add: lon_to_360_def)

text \<open>
  C4.  For every signed longitude \<open>l\<close> in \<open>[-180, 180)\<close>, \<open>_lon_to_360\<close>, that is
  \<open>(360 + (l % 360)) % 360\<close>, returns a value in \<open>[0, 360)\<close>, and it returns the same value
  at \<open>l + 360\<close>.
\<close>

theorem lon_to_360_range_period:
  "- 180 \<le> l \<Longrightarrow> l < 180 \<Longrightarrow>
     (\<exists>v. lon_to_360 (Fin l) = Fin v \<and> 0 \<le> v \<and> v < 360)
     \<and> lon_to_360 (Fin l) = lon_to_360 (Fin (l + 360))"
  using mod360_range [of l] mod360_period [of l] by (simp add: lon_to_360_Fin)

theorem lon_to_360_range_period_witness:
  "- 180 \<le> (- 40 :: real) \<and> (- 40 :: real) < 180 \<and> lon_to_360 (Fin (- 40)) = Fin 320
     \<and> lon_to_360 (Fin (- 40 + 360)) = Fin 320"
proof -
  have v: "lon_to_360 (Fin (- 40)) = Fin 320" by (simp add: lon_to_360_def)
  from lon_to_360_range_period [of "- 40"] v show ?thesis by simp
qed

section \<open>Quadrant radii of a row\<close>

lemma map_err_row_get:
  "\<forall>c \<in> set cs. row c \<noteq> None \<Longrightarrow> map_err (row_get row) cs = Inr (map (cell_at row) cs)"
  by (induction cs) (auto simp: cell_at_def)

lemma map_err_total:
  "\<forall>x \<in> set xs. \<exists>y. f x = Inr y \<Longrightarrow> \<exists>ys. map_err f xs = Inr ys \<and> length ys = length xs"
  by (induction xs) auto

lemma parse_radii_alt:
  "parse_radii row prefix scale =
     (case map_err (row_get row) (quad_cols prefix) of
        Inl e \<Rightarrow> Inl e
      | Inr values \<Rightarrow>
          if \<exists>v \<in> set values. absent v then Inr None
          else (case map_err (\<lambda>v. case py_int v of Inl e \<Rightarrow> Inl e | Inr n \<Rightarrow> truediv n scale) values of
                  Inl e \<Rightarrow> Inl e
                | Inr radii \<Rightarrow> Inr (Some radii)))"
  by (simp only: parse_radii_def quad_cols_def list_ex_iff absent_def Let_def)

lemma parse_radii_absent:
  assumes "\<forall>c \<in> set (quad_cols prefix). row c \<noteq> None"
    and "\<exists>c \<in> set (quad_cols prefix). absent (cell_at row c)"
  shows "parse_radii row prefix scale = Inr None"
proof -
  have "map_err (row_get row) (quad_cols prefix) = Inr (map (cell_at row) (quad_cols prefix))"
    using assms(1) by (rule map_err_row_get)
  moreover have "\<exists>v \<in> set (map (cell_at row) (quad_cols prefix)). absent v"
    using assms(2) by auto
  ultimately show ?thesis
    by (simp only: parse_radii_alt sum.case if_True)
qed









text \<open>
  C7 (as amended).  For a row that has the four quadrant columns of a threshold, if any one
  of the four values is blank (one space) or missing (\<open>nan\<close>, \<open>NaT\<close>), \<open>_parse_radii\<close> returns
  \<open>None\<close> without raising, whatever the other three values and the scale are, and the ring
  of that row and threshold is skipped: nothing is drawn and nothing is raised.
\<close>

theorem parse_radii_absent_skips:
  assumes "\<forall>c \<in> set (quad_cols prefix). row c \<noteq> None"
    and "\<exists>c \<in> set (quad_cols prefix). absent (cell_at row c)"
  shows "parse_radii row prefix scale = Inr None
         \<and> draw_threshold row prefix color scale at_x at_y ax = (ax, None)"
  using parse_radii_absent [OF assms] by (simp add: draw_threshold_def)

theorem parse_radii_absent_skips_witness:
  "absent (cell_at obs_b ''USA_R34_SE'')
   \<and> parse_radii obs_b ''USA_R34'' RADIUS_SCALE = Inr None
   \<and> draw_threshold obs_b ''USA_R34'' COLOR_R34 RADIUS_SCALE (Fin 319) (Fin 21) [] = ([], None)"
proof -
  have h1: "\<forall>c \<in> set (quad_cols ''USA_R34''). obs_b c \<noteq> None"
    by code_simp
  have h2: "\<exists>c \<in> set (quad_cols ''USA_R34''). absent (cell_at obs_b c)"
    by code_simp
  have h3: "absent (cell_at obs_b ''USA_R34_SE'')"
    by code_simp
  note c = parse_radii_absent_skips [OF h1 h2, of RADIUS_SCALE COLOR_R34 "Fin 319" "Fin 21" "[]"]
  show ?thesis by (rule conjI [OF h3 c])
qed

text \<open>
  C7 as stated fails for a value that is neither blank nor a whole number: with
  \<open>USA_R34_SE = "abc"\<close> (the other three quadrants numeric) \<open>_parse_radii\<close> raises
  \<open>ValueError\<close> from \<open>int("abc")\<close> instead of returning \<open>None\<close>, and the exception leaves the
  rendering of the row.
\<close>

theorem parse_radii_non_numeric_counterexample:
  "parse_radii (obs_a(''USA_R34_SE'' \<mapsto> Str ''abc'')) ''USA_R34'' RADIUS_SCALE = Inl ValueError
   \<and> draw_threshold (obs_a(''USA_R34_SE'' \<mapsto> Str ''abc'')) ''USA_R34'' COLOR_R34 RADIUS_SCALE
        (Fin 320) (Fin 20) [] = ([], Some ValueError)"
  by code_simp



section \<open>The track loader\<close>

lemma bind_err_case: "bind_err m f = (case m of Inl e \<Rightarrow> Inl e | Inr x \<Rightarrow> f x)"
  by (cases m) simp_all

lemma map_err_Inr_D: "map_err f xs = Inr ys \<Longrightarrow> list_all2 (\<lambda>x y. f x = Inr y) xs ys"
proof (induction xs arbitrary: ys)
  case Nil
  then show ?case by simp
next
  case (Cons x xs)
  from Cons.prems obtain y zs where "f x = Inr y" "map_err f xs = Inr zs" "ys = y # zs"
    by (auto split: sum.splits)
  with Cons.IH show ?case by simp
qed


lemma map_err_map: "map_err f (map g xs) = map_err (\<lambda>x. f (g x)) xs"
  by (induction xs) (auto split: sum.splits)

lemma map_err_zip:
  "bind_err (map_err g xs) (\<lambda>ys. Inr (map (\<lambda>(x, y). h x y) (zip xs ys)))
     = map_err (\<lambda>x. bind_err (g x) (\<lambda>y. Inr (h x y))) xs"
proof (induction xs)
  case Nil
  then show ?case by simp
next
  case (Cons x xs)
  show ?case
  proof (cases "g x")
    case (Inl e)
    then show ?thesis by simp
  next
    case (Inr y)
    with Cons show ?thesis
      by (cases "map_err g xs") (auto simp: bind_err_case split: sum.splits)
  qed
qed

lemma finish_rows_eq:
  "bind_err (map_err (\<lambda>r. cell_float L (cell_at r ''LON''))
       (map (\<lambda>r. r(''LON_180'' \<mapsto> cell_at r ''LON'')) rows)) (\<lambda>lons.
     Inr (map (\<lambda>(r, f). r(''LON'' \<mapsto> Flt (lon_to_360 f)))
            (zip (map (\<lambda>r. r(''LON_180'' \<mapsto> cell_at r ''LON'')) rows) lons)))
   = map_err (finish_row L) rows"
proof -
  have c: "\<And>r. cell_at (r(''LON_180'' \<mapsto> cell_at r ''LON'')) ''LON'' = cell_at r ''LON''"
    by (simp add: cell_at_def)
  let ?up = "\<lambda>r. r(''LON_180'' \<mapsto> cell_at r ''LON'')"
  have "bind_err (map_err (\<lambda>r. cell_float L (cell_at r ''LON'')) (map ?up rows)) (\<lambda>lons.
          Inr (map (\<lambda>(r, f). r(''LON'' \<mapsto> Flt (lon_to_360 f))) (zip (map ?up rows) lons)))
        = map_err (\<lambda>r. bind_err (cell_float L (cell_at r ''LON''))
                      (\<lambda>f. Inr (r(''LON'' \<mapsto> Flt (lon_to_360 f))))) (map ?up rows)"
    by (rule map_err_zip)
  also have "\<dots> = map_err (finish_row L) rows"
  proof -
    have "finish_row L = (\<lambda>r. bind_err (cell_float L (cell_at r ''LON''))
            (\<lambda>f. Inr (r(''LON_180'' \<mapsto> cell_at r ''LON'', ''LON'' \<mapsto> Flt (lon_to_360 f)))))"
      by (rule ext) (simp add: finish_row_def)
    then show ?thesis by (simp only: map_err_map c)
  qed
  finally show ?thesis .
qed

lemma get_storm_track_phases:
  "get_storm_track L name year ibtracs_csv flag =
     bind_err (selected_rows L name year ibtracs_csv) (\<lambda>rows.
     bind_err (map_err (finish_row L) (if flag then filter wmo_present rows else rows)) (\<lambda>rs.
     Inr \<lparr>cols = EXTRACT_VARS @ [''LON_180''], recs = rs\<rparr>))"
proof -
  have w: "\<And>rows. filter (\<lambda>r. cell_at r ''WMO_PRES'' \<noteq> Str '' '')
             (filter (\<lambda>r. cell_at r ''WMO_WIND'' \<noteq> Str '' '') rows) = filter wmo_present rows"
    by (simp only: filter_filter) (rule filter_cong, auto simp: wmo_present_def)
  have fin: "\<And>rows. bind_err (map_err (\<lambda>r. cell_float L (cell_at r ''LON''))
       (map (\<lambda>r. r(''LON_180'' \<mapsto> cell_at r ''LON'')) rows)) (\<lambda>lons.
     Inr \<lparr>cols = EXTRACT_VARS @ [''LON_180''], recs = map (\<lambda>(r, f). r(''LON'' \<mapsto> Flt (lon_to_360 f)))
            (zip (map (\<lambda>r. r(''LON_180'' \<mapsto> cell_at r ''LON'')) rows) lons)\<rparr>)
     = bind_err (map_err (finish_row L) rows) (\<lambda>rs. Inr \<lparr>cols = EXTRACT_VARS @ [''LON_180''], recs = rs\<rparr>)"
  proof -
    fix rows
    show "?thesis rows"
      by (cases "map_err (\<lambda>r. cell_float L (cell_at r ''LON''))
                   (map (\<lambda>r. r(''LON_180'' \<mapsto> cell_at r ''LON'')) rows)")
         (use finish_rows_eq [of L rows, symmetric] in \<open>simp_all del: map_map\<close>)
  qed
  show ?thesis
  proof (cases "read_csv L ibtracs_csv")
    case (Inl e)
    then show ?thesis by (simp add: get_storm_track_def selected_rows_def)
  next
    case d: (Inr data0)
    show ?thesis
    proof (cases "to_datetime L (Str (str_int year))")
      case (Inl e)
      with d show ?thesis by (simp add: get_storm_track_def selected_rows_def)
    next
      case ys: (Inr year_start)
      show ?thesis
      proof (cases "to_datetime L (Str (str_int (year + 1)))")
        case (Inl e)
        with d ys show ?thesis by (simp add: get_storm_track_def selected_rows_def)
      next
        case ye: (Inr year_end)
        show ?thesis
        proof (cases "map_err (\<lambda>r. to_datetime L (cell_at r ''ISO_TIME''))
                        (filter (\<lambda>r. cell_at r ''NAME'' = Str name) (drop 1 (recs data0)))")
          case (Inl e)
          with d ys ye show ?thesis
            by (simp add: get_storm_track_def selected_rows_def Let_def)
        next
          case st: (Inr stamps)
          with d ys ye show ?thesis
            by (cases flag)
               (simp_all add: get_storm_track_def selected_rows_def Let_def w fin
                  del: map_map filter_filter)
        qed
      qed
    qed
  qed
qed








section \<open>A request that matches no row\<close>

lemma extract_vars_mem:
  "''NAME'' \<in> set EXTRACT_VARS" "''ISO_TIME'' \<in> set EXTRACT_VARS"
  "''LAT'' \<in> set EXTRACT_VARS" "''LON'' \<in> set EXTRACT_VARS"
  by (simp_all add: EXTRACT_VARS_def)

lemma selected_rows_empty:
  assumes rd: "read_csv L csv = Inr data"
    and ys: "to_datetime L (Str (str_int year)) = Inr year_start"
    and ye: "to_datetime L (Str (str_int (year + 1))) = Inr year_end"
    and cs: "set EXTRACT_VARS \<subseteq> set (cols data)"
    and nm: "no_row_matches L data name year_start year_end"
  shows "selected_rows L name year csv = Inr []"
proof -
  define rows2 where "rows2 = filter (\<lambda>r. cell_at r ''NAME'' = Str name) (drop 1 (recs data))"
  have each: "\<forall>r \<in> set rows2. \<exists>t. to_datetime L (cell_at r ''ISO_TIME'') = Inr t"
  proof
    fix r assume "r \<in> set rows2"
    then have "r \<in> set (drop 1 (recs data))" "cell_at r ''NAME'' = Str name"
      by (simp_all add: rows2_def)
    with nm have "case to_datetime L (cell_at r ''ISO_TIME'') of
           Inl e \<Rightarrow> False | Inr t \<Rightarrow> \<not> in_year t year_start year_end"
      unfolding no_row_matches_def by blast
    then show "\<exists>t. to_datetime L (cell_at r ''ISO_TIME'') = Inr t"
      by (cases "to_datetime L (cell_at r ''ISO_TIME'')") simp_all
  qed
  from map_err_total [OF each] obtain stamps where
    st: "map_err (\<lambda>r. to_datetime L (cell_at r ''ISO_TIME'')) rows2 = Inr stamps"
    by blast
  from map_err_Inr_D [OF st]
  have pairs: "\<forall>(r, t) \<in> set (zip rows2 stamps). to_datetime L (cell_at r ''ISO_TIME'') = Inr t"
    by (simp add: list_all2_iff)
  have out: "\<forall>(r, t) \<in> set (zip rows2 stamps). \<not> in_year t year_start year_end"
  proof (clarify)
    fix r t assume m: "(r, t) \<in> set (zip rows2 stamps)" and iy: "in_year t year_start year_end"
    from m have "r \<in> set rows2" by (rule set_zip_leftD)
    then have "r \<in> set (drop 1 (recs data))" "cell_at r ''NAME'' = Str name"
      by (simp_all add: rows2_def)
    moreover from m pairs have "to_datetime L (cell_at r ''ISO_TIME'') = Inr t" by auto
    moreover from nm have "\<forall>r \<in> set (drop 1 (recs data)). cell_at r ''NAME'' = Str name \<longrightarrow>
        (case to_datetime L (cell_at r ''ISO_TIME'') of
           Inl e \<Rightarrow> False | Inr t \<Rightarrow> \<not> in_year t year_start year_end)"
      unfolding no_row_matches_def .
    ultimately have "\<not> in_year t year_start year_end"
      by fastforce
    with iy show False by simp
  qed
  have emp: "filter (\<lambda>r. time_ge (cell_at r ''ISO_TIME'') year_start
                         \<and> time_lt (cell_at r ''ISO_TIME'') year_end)
               (map (\<lambda>(r, t). r(''ISO_TIME'' \<mapsto> time_cell t)) (zip rows2 stamps)) = []"
    using out by (auto simp: filter_empty_conv cell_at_def in_year_def)
  from cs extract_vars_mem have n: "''NAME'' \<in> set (cols data)" "''ISO_TIME'' \<in> set (cols data)"
    by auto
  show ?thesis
    using rd ys ye cs n st [unfolded rows2_def] emp [unfolded rows2_def]
    by (simp add: selected_rows_def Let_def)
qed

lemma plot_track_empty:
  assumes "recs track = []" and "''LAT'' \<in> set (cols track)" and "''LON'' \<in> set (cols track)"
  shows "plot_track L track storm_name output_path figsize map_offset c34 c50 c64 scale
           = ([Feature ''BORDERS'', Feature ''COASTLINE''], Some ValueError)"
  using assms
  by (simp add: plot_track_def column_float_def series_min_def series_max_def setup_map_def
        set_extent_def)

lemma empty_track_cols: "''LAT'' \<in> set (cols empty_track)" "''LON'' \<in> set (cols empty_track)"
  using extract_vars_mem by (simp_all add: empty_track_def)

lemma get_storm_track_empty:
  assumes "selected_rows L name year csv = Inr []"
  shows "get_storm_track L name year csv flag = Inr empty_track"
  using assms by (simp add: get_storm_track_phases empty_track_def)

text \<open>
  C8 (as amended).  For an archive that is read, has the columns the loader extracts, and
  in which no row matches the requested name and year (the timestamps of the rows with
  that name parse, as do the bounds of the year), \<open>get_storm_track\<close> returns the empty track
  without raising.  \<open>plot_track\<close> takes the bounds of the map from the rows of the track;
  on the empty track they are \<open>nan\<close>, \<open>set_extent\<close> refuses them, and the call ends with a
  \<open>ValueError\<close> after adding the two map features: no extent, no grid, no image.
\<close>

theorem no_match_empty_track_no_map:
  assumes "read_csv L csv = Inr data"
    and "to_datetime L (Str (str_int year)) = Inr year_start"
    and "to_datetime L (Str (str_int (year + 1))) = Inr year_end"
    and "set EXTRACT_VARS \<subseteq> set (cols data)"
    and "no_row_matches L data name year_start year_end"
  shows "get_storm_track L name year csv flag = Inr empty_track
         \<and> series_min [] = NaN \<and> series_max [] = NaN
         \<and> plot_track L empty_track storm_name output_path figsize map_offset c34 c50 c64 scale
             = ([Feature ''BORDERS'', Feature ''COASTLINE''], Some ValueError)"
proof -
  have "get_storm_track L name year csv flag = Inr empty_track"
    by (rule get_storm_track_empty) (rule selected_rows_empty [OF assms])
  moreover have "recs empty_track = []" by (simp add: empty_track_def)
  ultimately show ?thesis
    using plot_track_empty [OF _ empty_track_cols]
    by (simp add: series_min_def series_max_def)
qed

theorem no_match_empty_track_no_map_witness:
  "read_csv sample_lib ''ibtracs.csv'' = Inr sample_archive
   \<and> set EXTRACT_VARS \<subseteq> set (cols sample_archive)
   \<and> no_row_matches sample_lib sample_archive ''TESTSTORM'' 
        (Some \<lparr>ts_year = 2019, ts_month = 1, ts_day = 1, ts_hour = 0, ts_minute = 0, ts_second = 0\<rparr>)
        (Some \<lparr>ts_year = 2020, ts_month = 1, ts_day = 1, ts_hour = 0, ts_minute = 0, ts_second = 0\<rparr>)
   \<and> get_storm_track sample_lib ''TESTSTORM'' 2019 ''ibtracs.csv'' True = Inr empty_track
   \<and> plot_track sample_lib empty_track ''TESTSTORM'' (Some ''TESTSTORM_2019_track.png'')
        FIGURE_SIZE MAP_OFFSET COLOR_R34 COLOR_R50 COLOR_R64 RADIUS_SCALE
        = ([Feature ''BORDERS'', Feature ''COASTLINE''], Some ValueError)"
proof -
  have rd: "read_csv sample_lib ''ibtracs.csv'' = Inr sample_archive"
    by (simp add: sample_lib_def)
  have ys: "to_datetime sample_lib (Str (str_int 2019)) =
      Inr (Some \<lparr>ts_year = 2019, ts_month = 1, ts_day = 1, ts_hour = 0, ts_minute = 0, ts_second = 0\<rparr>)"
    by code_simp
  have ye: "to_datetime sample_lib (Str (str_int (2019 + 1))) =
      Inr (Some \<lparr>ts_year = 2020, ts_month = 1, ts_day = 1, ts_hour = 0, ts_minute = 0, ts_second = 0\<rparr>)"
    by code_simp
  have cs: "set EXTRACT_VARS \<subseteq> set (cols sample_archive)"
    by (auto simp: sample_archive_def)
  have nm: "no_row_matches sample_lib sample_archive ''TESTSTORM'' 
        (Some \<lparr>ts_year = 2019, ts_month = 1, ts_day = 1, ts_hour = 0, ts_minute = 0, ts_second = 0\<rparr>)
        (Some \<lparr>ts_year = 2020, ts_month = 1, ts_day = 1, ts_hour = 0, ts_minute = 0, ts_second = 0\<rparr>)"
    by code_simp
  note r = no_match_empty_track_no_map [OF rd ys ye cs nm, of True "''TESTSTORM''"
      "Some ''TESTSTORM_2019_track.png''" FIGURE_SIZE MAP_OFFSET COLOR_R34 COLOR_R50 COLOR_R64
      RADIUS_SCALE]
  show ?thesis
    by (intro conjI rd cs nm conjunct1 [OF r] conjunct2 [OF conjunct2 [OF conjunct2 [OF r]]])
qed

text \<open>
  C8 as stated fails in its second half.  On the sample archive a request for a storm that
  is not there returns a track without rows, and \<open>plot_track\<close> on that track does not
  produce a blank map: it stops with \<open>ValueError\<close> in the base map setup, whose extent is
  computed from the (absent) rows.
\<close>

theorem plot_track_empty_counterexample:
  "(case get_storm_track sample_lib ''NOSUCH'' 2020 ''ibtracs.csv'' True of
      Inl e \<Rightarrow> False
    | Inr t \<Rightarrow> length (recs t) = 0
        \<and> plot_track sample_lib t ''NOSUCH'' (Some ''NOSUCH_2020_track.png'')
             FIGURE_SIZE MAP_OFFSET COLOR_R34 COLOR_R50 COLOR_R64 RADIUS_SCALE
           = ([Feature ''BORDERS'', Feature ''COASTLINE''], Some ValueError))"
  by code_simp

section \<open>The command line\<close>



lemma loader_call_eq:
  "loader_call a = (upper (args_name a), args_year a, args_ibt_csv a,
                    \<not> args_no_filter_wmo a \<and> args_year a \<noteq> 2021)"
  by (simp add: loader_call_def)

text \<open>
  C6 (as amended).  \<open>main\<close> calls the loader with the filter enabled exactly when the
  disable flag is not passed and the requested year is not 2021: for the year 2021 the
  command line disables the filter by itself.
\<close>

theorem main_loader_filter:
  "loader_call a = (upper (args_name a), args_year a, args_ibt_csv a,
                    \<not> args_no_filter_wmo a \<and> args_year a \<noteq> 2021)
   \<and> main L a =
       with_val (get_storm_track L (upper (args_name a)) (args_year a) (args_ibt_csv a)
                   (\<not> args_no_filter_wmo a \<and> args_year a \<noteq> 2021)) []
         (\<lambda>track. plot_track L track (upper (args_name a))
             (Some (case args_output a of
                      None \<Rightarrow> upper (args_name a) @ ''_'' @ str_int (args_year a) @ ''_track.png''
                    | Some p \<Rightarrow> if p = []
                        then upper (args_name a) @ ''_'' @ str_int (args_year a) @ ''_track.png''
                        else p))
             FIGURE_SIZE (args_map_offset a)
             (args_color_r34 a) (args_color_r50 a) (args_color_r64 a) (args_radius_scale a))"
  by (simp add: main_def loader_call_eq)

text \<open>
  C6 as stated fails: with the year 2021 and the disable flag not passed, \<open>main\<close> calls the
  loader with the filter disabled.
\<close>

theorem main_loader_filter_counterexample:
  "\<not> args_no_filter_wmo (sample_args\<lparr>args_year := 2021\<rparr>)
   \<and> \<not> snd (snd (snd (loader_call (sample_args\<lparr>args_year := 2021\<rparr>))))"
  by (simp add: sample_args_def loader_call_eq)



end
